theory Spec2Isabelle
  imports Complex_Main "HOL-Library.Sublist"
begin

section \<open>Values, exceptions and effects\<close>

text \<open>
  The agent of \<^verbatim>\<open>base_agent.py\<close> moves loosely typed Python values around
  (\<^verbatim>\<open>Dict[str, Any]\<close>): a cycle of the history, the result of a tool, the payload of a
  status event. They are modelled by one datatype of values; a dict is an association list
  in the order its literal is written in the source.
\<close>

datatype pyval =
    PNone
  | PBool bool
  | PInt int
  | PFloat real
  | PStr string
  | PList "pyval list"
  | PDict "(string \<times> pyval) list"

text \<open>
  An exception is a value: an instance of Python's \<^verbatim>\<open>Exception\<close>, carrying what
  \<^verbatim>\<open>str(e)\<close> gives. The handlers of the source are all \<^verbatim>\<open>except Exception\<close>;
  interpreter exits (\<^verbatim>\<open>KeyboardInterrupt\<close>, \<^verbatim>\<open>SystemExit\<close>) are not instances of
  that class and are outside this model.
\<close>

datatype exn = Exception (str: string)

text \<open>
  What a run exchanges with its collaborators, in order: every call of the language model
  (\<^verbatim>\<open>call_llm\<close>: its name and input), every call of a tool's \<^verbatim>\<open>execute\<close>, and every
  call of \<^verbatim>\<open>_emit_status\<close> (event type and payload). The source keeps no such list; it is
  the observable behaviour of a run, recorded so that statements about "how many calls" and
  "which payload" can be made.
\<close>

datatype event =
    LLM string pyval
  | ToolExec string "(string \<times> pyval) list"
  | Status string pyval

text \<open>The pydantic models of the source. Field names are prefixed where two models share one.\<close>

record 'w Tool =
  name :: string
  description :: string
  parameters :: "(string \<times> pyval) list"
  execute :: "(string \<times> pyval) list \<Rightarrow> 'w \<Rightarrow> (exn + pyval) \<times> 'w"

record Plan =
  plan_thoughts :: string
  steps :: "string list"
  current_step :: int
  goal_achieved :: bool

record Action =
  action_thoughts :: string
  tool_name :: string
  tool_parameters :: "(string \<times> pyval) list"
  expected_outcome :: string
  user_message :: string

record Reflection =
  reflection_thoughts :: string
  action_successful :: bool
  lessons_learned :: string
  next_steps :: string
  goal_progress :: string

text \<open>\<^verbatim>\<open>.dict()\<close> of the three models.\<close>

definition Plan_dict :: "Plan \<Rightarrow> pyval" where
  "Plan_dict p = PDict
     [(''thoughts'', PStr (plan_thoughts p)),
      (''steps'', PList (map PStr (steps p))),
      (''current_step'', PInt (current_step p)),
      (''goal_achieved'', PBool (goal_achieved p))]"

definition Action_dict :: "Action \<Rightarrow> pyval" where
  "Action_dict a = PDict
     [(''thoughts'', PStr (action_thoughts a)),
      (''tool_name'', PStr (tool_name a)),
      (''tool_parameters'', PDict (tool_parameters a)),
      (''expected_outcome'', PStr (expected_outcome a)),
      (''user_message'', PStr (user_message a))]"

definition Reflection_dict :: "Reflection \<Rightarrow> pyval" where
  "Reflection_dict r = PDict
     [(''thoughts'', PStr (reflection_thoughts r)),
      (''action_successful'', PBool (action_successful r)),
      (''lessons_learned'', PStr (lessons_learned r)),
      (''next_steps'', PStr (next_steps r)),
      (''goal_progress'', PStr (goal_progress r))]"

text \<open>
  The agent object. \<open>'w\<close> is the state of everything outside the program (the model
  service, the services behind the tools, the observer's own state); \<open>world\<close> is its
  current value and \<open>trace\<close> the exchanges made so far. \<open>is_goal_achieved_method\<close> is
  the method \<^verbatim>\<open>is_goal_achieved\<close>, which a subclass may override. Tracing output on
  \<^verbatim>\<open>verbose\<close> is printing only and is left out.
\<close>

record 'w BaseAgent =
  agent_name :: string
  max_iterations :: int
  output_schema :: "string option"
  callback :: "(string \<Rightarrow> pyval \<Rightarrow> 'w \<Rightarrow> (exn + unit) \<times> 'w) option"
  current_plan :: "Plan option"
  execution_history :: "pyval list"
  current_goal :: "string option"
  tools :: "'w Tool list"
  agent_description :: string
  is_goal_achieved_method :: "string \<Rightarrow> pyval list \<Rightarrow> exn + pyval"
  world :: 'w
  trace :: "event list"


text \<open>
  A method of the agent takes the agent and returns a value or an exception, and the agent
  as the call left it.
\<close>

type_synonym ('a, 'w) prog = "'w BaseAgent \<Rightarrow> (exn + 'a) \<times> 'w BaseAgent"







section \<open>Python helpers\<close>

definition type_name :: "pyval \<Rightarrow> string" where
  "type_name v = (case v of PNone \<Rightarrow> ''NoneType'' | PBool _ \<Rightarrow> ''bool'' | PInt _ \<Rightarrow> ''int''
     | PFloat _ \<Rightarrow> ''float'' | PStr _ \<Rightarrow> ''str'' | PList _ \<Rightarrow> ''list'' | PDict _ \<Rightarrow> ''dict'')"

text \<open>\<^verbatim>\<open>v.get(key, default)\<close>: only a dict has the method.\<close>

definition dict_get :: "pyval \<Rightarrow> string \<Rightarrow> pyval \<Rightarrow> exn + pyval" where
  "dict_get v key dflt = (case v of
       PDict kvs \<Rightarrow> Inr (case map_of kvs key of None \<Rightarrow> dflt | Some x \<Rightarrow> x)
     | _ \<Rightarrow> Inl (Exception ([CHR 0x27] @ type_name v @ [CHR 0x27] @ '' object has no attribute '' @ [CHR 0x27] @ ''get'' @ [CHR 0x27])))"






section \<open>Tool registry\<close>

text \<open>\<^verbatim>\<open>self.tools.append(tool)\<close>\<close>

definition add_tool :: "'w Tool \<Rightarrow> 'w BaseAgent \<Rightarrow> 'w BaseAgent" where
  "add_tool tool self = self\<lparr>tools := tools self @ [tool]\<rparr>"

text \<open>\<^verbatim>\<open>self.tools = [tool for tool in self.tools if tool.name != tool_name]\<close>\<close>

definition remove_tool :: "string \<Rightarrow> 'w BaseAgent \<Rightarrow> 'w BaseAgent" where
  "remove_tool tool_name' self = self\<lparr>tools := [tool \<leftarrow> tools self. name tool \<noteq> tool_name']\<rparr>"

text \<open>The \<^verbatim>\<open>for\<close> loop of \<^verbatim>\<open>get_tool\<close> over \<^verbatim>\<open>self.tools\<close>, returning at the first match.\<close>

fun get_tool_loop :: "'w Tool list \<Rightarrow> string \<Rightarrow> 'w Tool option" where
  "get_tool_loop [] tool_name' = None"
| "get_tool_loop (tool # rest) tool_name' =
     (if name tool = tool_name' then Some tool else get_tool_loop rest tool_name')"

definition get_tool :: "'w BaseAgent \<Rightarrow> string \<Rightarrow> 'w Tool option" where
  "get_tool self tool_name' = get_tool_loop (tools self) tool_name'"

definition list_tools :: "'w BaseAgent \<Rightarrow> string list" where
  "list_tools self = [name tool. tool \<leftarrow> tools self]"

section \<open>The steps of one reasoning cycle\<close>











section \<open>Goal check and final result\<close>

text \<open>The default \<^verbatim>\<open>is_goal_achieved\<close>.\<close>

definition is_goal_achieved :: "string \<Rightarrow> pyval list \<Rightarrow> exn + pyval" where
  "is_goal_achieved goal execution_history' =
     (if execution_history' = [] then Inr (PBool False)
      else
        let last_cycle = last execution_history' in
        case dict_get last_cycle ''reflection'' (PDict []) of
          Inl e \<Rightarrow> Inl e
        | Inr last_reflection \<Rightarrow> dict_get last_reflection ''action_successful'' (PBool False))"


section \<open>The loop\<close>



definition cycle_dict :: "int \<Rightarrow> Plan \<Rightarrow> Action \<Rightarrow> pyval \<Rightarrow> Reflection \<Rightarrow> real \<Rightarrow> pyval" where
  "cycle_dict iteration plan action action_result reflection timestamp = PDict
     [(''iteration'', PInt iteration),
      (''plan'', Plan_dict plan),
      (''action'', Action_dict action),
      (''action_result'', action_result),
      (''reflection'', Reflection_dict reflection),
      (''timestamp'', PFloat timestamp)]"






section \<open>Reading a run\<close>

text \<open>The outcome of a method, read through a predicate on its result and on the agent it leaves.\<close>

definition wp :: "('a, 'w) prog \<Rightarrow> ((exn + 'a) \<Rightarrow> 'w BaseAgent \<Rightarrow> bool) \<Rightarrow> 'w BaseAgent \<Rightarrow> bool" where
  "wp m Q self = (case m self of (r, self') \<Rightarrow> Q r self')"


text \<open>The inputs of the model calls of one name, in the order of the trace.\<close>

definition llm_inputs :: "string \<Rightarrow> event list \<Rightarrow> pyval list" where
  "llm_inputs n tr = concat (map (\<lambda>ev. case ev of LLM m d \<Rightarrow> (if m = n then [d] else []) | _ \<Rightarrow> []) tr)"

text \<open>The payloads of the status events of one type, in the order of the trace.\<close>

definition status_payloads :: "string \<Rightarrow> event list \<Rightarrow> pyval list" where
  "status_payloads n tr = concat (map (\<lambda>ev. case ev of Status m d \<Rightarrow> (if m = n then [d] else []) | _ \<Rightarrow> []) tr)"

text \<open>\<^verbatim>\<open>v.get(key)\<close> read as a value: \<open>PNone\<close> when the key or the dict is missing.\<close>

definition item :: "pyval \<Rightarrow> string \<Rightarrow> pyval" where
  "item v key = (case dict_get v key PNone of Inl e \<Rightarrow> PNone | Inr x \<Rightarrow> x)"

text \<open>The iteration of a \<^verbatim>\<open>plan_created\<close> payload whose plan has \<^verbatim>\<open>goal_achieved\<close> set.\<close>

definition achieved_at :: "pyval \<Rightarrow> int list" where
  "achieved_at d = (if item (item d ''plan'') ''goal_achieved'' = PBool True
     then (case item d ''iteration'' of PInt k \<Rightarrow> [k] | _ \<Rightarrow> []) else [])"

text \<open>The iterations at which the Plan step reported \<^verbatim>\<open>goal_achieved = true\<close>.\<close>

definition achieved_iterations :: "event list \<Rightarrow> int list" where
  "achieved_iterations tr = concat (map achieved_at (status_payloads ''plan_created'' tr))"

text \<open>The input the Reflect step is given for an \<^verbatim>\<open>action_executed\<close> payload.\<close>

definition reflect_input_for :: "string \<Rightarrow> pyval \<Rightarrow> pyval" where
  "reflect_input_for goal d = PDict
     [(''action'', item d ''action''), (''action_result'', item d ''result''), (''goal'', PStr goal)]"

text \<open>Every executed action was handed, with its result, to the Reflect step.\<close>

definition all_reflected :: "string \<Rightarrow> event list \<Rightarrow> bool" where
  "all_reflected goal tr \<longleftrightarrow>
     (\<forall>d \<in> set (status_payloads ''action_executed'' tr). reflect_input_for goal d \<in> set (llm_inputs ''reflect'' tr))"

text \<open>The calls of a tool that the Execute step makes for an action.\<close>

definition tool_events :: "Action \<Rightarrow> 'w BaseAgent \<Rightarrow> event list" where
  "tool_events action self =
     (if tool_name action = ''direct_response'' then []
      else case get_tool self (tool_name action) of
             None \<Rightarrow> []
           | Some tool \<Rightarrow> [ToolExec (name tool) (tool_parameters action)])"

text \<open>The state of a run after \<open>n\<close> full iterations of the loop.\<close>

definition loop_inv :: "string \<Rightarrow> nat \<Rightarrow> 'w BaseAgent \<Rightarrow> bool" where
  "loop_inv goal n self \<longleftrightarrow>
     current_goal self = Some goal
     \<and> map (\<lambda>c. item c ''iteration'') (execution_history self) = map PInt [1..int n]
     \<and> length (llm_inputs ''plan'' (trace self)) = n
     \<and> length (llm_inputs ''decide'' (trace self)) = n
     \<and> length (status_payloads ''action_executed'' (trace self)) = n
     \<and> length (llm_inputs ''reflect'' (trace self)) = n
     \<and> achieved_iterations (trace self) = []
     \<and> all_reflected goal (trace self)"

text \<open>The state of a run that left the loop at \<^verbatim>\<open>break\<close> in iteration \<open>n + 1\<close>.\<close>

definition loop_broke :: "string \<Rightarrow> nat \<Rightarrow> 'w BaseAgent \<Rightarrow> bool" where
  "loop_broke goal n self \<longleftrightarrow>
     current_goal self = Some goal
     \<and> map (\<lambda>c. item c ''iteration'') (execution_history self) = map PInt [1..int n]
     \<and> length (llm_inputs ''plan'' (trace self)) = Suc n
     \<and> length (llm_inputs ''decide'' (trace self)) = n
     \<and> length (status_payloads ''action_executed'' (trace self)) = n
     \<and> length (llm_inputs ''reflect'' (trace self)) = n
     \<and> achieved_iterations (trace self) = [int n + 1]
     \<and> all_reflected goal (trace self)"

text \<open>The state of a run in which a model or tracing call failed during iteration \<open>n + 1\<close>.\<close>

definition loop_failed :: "string \<Rightarrow> nat \<Rightarrow> 'w BaseAgent \<Rightarrow> bool" where
  "loop_failed goal n self \<longleftrightarrow>
     current_goal self = Some goal
     \<and> (map (\<lambda>c. item c ''iteration'') (execution_history self) = map PInt [1..int n]
        \<or> map (\<lambda>c. item c ''iteration'') (execution_history self) = map PInt [1..int n + 1])
     \<and> length (llm_inputs ''plan'' (trace self)) \<le> Suc n
     \<and> length (llm_inputs ''decide'' (trace self)) \<le> Suc n
     \<and> length (status_payloads ''action_executed'' (trace self)) \<le> Suc n
     \<and> length (llm_inputs ''reflect'' (trace self)) \<le> Suc n
     \<and> achieved_iterations (trace self) = []
     \<and> all_reflected goal (trace self)"

text \<open>How the loop ends when it is entered after \<open>n\<close> full iterations: by a failure, at \<^verbatim>\<open>break\<close>, or with the iterations exhausted.\<close>

definition loop_post :: "string \<Rightarrow> int \<Rightarrow> nat \<Rightarrow> (exn + int) \<Rightarrow> 'w BaseAgent \<Rightarrow> bool" where
  "loop_post goal N n r self \<longleftrightarrow>
     max_iterations self = N \<and>
     (case r of
        Inl e \<Rightarrow> (\<exists>m. loop_failed goal m self \<and> int m < N)
      | Inr k \<Rightarrow> (\<exists>m. k = int m + 1 \<and> loop_broke goal m self \<and> int m < N)
               \<or> (\<exists>m. k = int m \<and> loop_inv goal m self \<and> \<not> int m < N \<and> (m = n \<or> int m \<le> N)))"

text \<open>What a finished run looks like: one of the three ways the loop ends, within the budget \<open>N\<close>.\<close>

definition run_summary :: "string \<Rightarrow> int \<Rightarrow> 'w BaseAgent \<Rightarrow> bool" where
  "run_summary goal N self \<longleftrightarrow>
     (\<exists>m. loop_failed goal m self \<and> int m < N)
     \<or> (\<exists>m. loop_broke goal m self \<and> int m < N)
     \<or> (\<exists>m. loop_inv goal m self \<and> \<not> int m < N \<and> int m \<le> max N 0)"

text \<open>The events that the loop and the start of a run record: calls of the three steps, tool calls, and the status events up to \<^verbatim>\<open>reflection_completed\<close>.\<close>

definition loop_event :: "event \<Rightarrow> bool" where
  "loop_event ev = (case ev of
       LLM n d \<Rightarrow> n \<in> {''plan'', ''decide'', ''reflect''}
     | ToolExec n kw \<Rightarrow> True
     | Status t d \<Rightarrow> t \<in> {''goal_start'', ''plan_created'', ''action_decided'', ''action_executed'',
                           ''reflection_completed''})"

text \<open>A history entry with a dict under \<^verbatim>\<open>reflection\<close>, which is what the default goal check reads.\<close>

definition has_reflection :: "pyval \<Rightarrow> bool" where
  "has_reflection c = (case c of
       PDict kvs \<Rightarrow> (case map_of kvs ''reflection'' of Some (PDict _) \<Rightarrow> True | _ \<Rightarrow> False)
     | _ \<Rightarrow> False)"






section \<open>A small agent for the examples\<close>

text \<open>
  A stub of the collaborators, on a world that counts the calls of the Plan step: the
  \<open>k\<close>-th plan and every later one report \<open>goal_achieved\<close>, the Decide-Action step
  always names the tool \<open>tn\<close>, every reflection marks success. A tool returns or raises
  a fixed value.
\<close>

definition demo_tool :: "string \<Rightarrow> string \<Rightarrow> (exn + pyval) \<Rightarrow> nat Tool" where
  "demo_tool n d v = \<lparr>name = n, description = d, parameters = [], execute = (\<lambda>kwargs w. (v, w))\<rparr>"

definition demo_agent :: "nat Tool list \<Rightarrow> nat BaseAgent" where
  "demo_agent ts = \<lparr>agent_name = ''demo'', max_iterations = 2, output_schema = None, callback = None,
     current_plan = None, execution_history = [], current_goal = None, tools = ts,
     agent_description = ''AI agent named demo'', is_goal_achieved_method = is_goal_achieved,
     world = 0, trace = []\<rparr>"




section \<open>Properties\<close>

subsection \<open>Rules for the steps of a run\<close>








lemma wp_if: "wp (if c then m else m') Q self = (if c then wp m Q self else wp m' Q self)"
  by simp







lemma llm_inputs_simps [simp]:
  "llm_inputs n [] = []"
  "llm_inputs n (a @ b) = llm_inputs n a @ llm_inputs n b"
  "llm_inputs n (LLM m d # tr) = (if m = n then d # llm_inputs n tr else llm_inputs n tr)"
  "llm_inputs n (Status m d # tr) = llm_inputs n tr"
  "llm_inputs n (ToolExec m kw # tr) = llm_inputs n tr"
  by (simp_all add: llm_inputs_def)

lemma status_payloads_simps [simp]:
  "status_payloads n [] = []"
  "status_payloads n (a @ b) = status_payloads n a @ status_payloads n b"
  "status_payloads n (Status m d # tr) = (if m = n then d # status_payloads n tr else status_payloads n tr)"
  "status_payloads n (LLM m d # tr) = status_payloads n tr"
  "status_payloads n (ToolExec m kw # tr) = status_payloads n tr"
  by (simp_all add: status_payloads_def)

lemma tool_events_quiet [simp]:
  "llm_inputs n (tool_events action self) = []"
  "status_payloads n (tool_events action self) = []"
  by (simp_all add: tool_events_def split: option.splits)

lemma achieved_iterations_simps [simp]:
  "achieved_iterations [] = []"
  "achieved_iterations (a @ b) = achieved_iterations a @ achieved_iterations b"
  "achieved_iterations (LLM m d # tr) = achieved_iterations tr"
  "achieved_iterations (ToolExec m kw # tr) = achieved_iterations tr"
  "achieved_iterations (Status m d # tr) =
     (if m = ''plan_created'' then achieved_at d @ achieved_iterations tr else achieved_iterations tr)"
  "achieved_iterations (tool_events action self) = []"
  by (simp_all add: achieved_iterations_def)

lemma achieved_at_plan_created [simp]:
  "achieved_at (PDict [(''iteration'', PInt k), (''plan'', Plan_dict p)]) = (if goal_achieved p then [k] else [])"
  by (simp add: achieved_at_def item_def dict_get_def Plan_dict_def)

lemma reflect_input_for_executed [simp]:
  "reflect_input_for goal (PDict [(''iteration'', it), (''action'', a), (''result'', r)])
     = PDict [(''action'', a), (''action_result'', r), (''goal'', PStr goal)]"
  by (simp add: reflect_input_for_def item_def dict_get_def)

lemma item_cycle_dict [simp]:
  "item (cycle_dict it p a r rf ts) ''iteration'' = PInt it"
  by (simp add: item_def dict_get_def cycle_dict_def)




















lemma run_summary_world [simp]: "run_summary goal N (self\<lparr>world := w\<rparr>) = run_summary goal N self"
  by (simp add: run_summary_def loop_inv_def loop_broke_def loop_failed_def)

lemma run_summary_extend [simp]:
  "llm_inputs ''plan'' evs = [] \<Longrightarrow> llm_inputs ''decide'' evs = [] \<Longrightarrow>
   llm_inputs ''reflect'' evs = [] \<Longrightarrow> status_payloads ''plan_created'' evs = [] \<Longrightarrow>
   status_payloads ''action_executed'' evs = [] \<Longrightarrow>
     run_summary goal N (self\<lparr>trace := trace self @ evs\<rparr>) = run_summary goal N self"
  by (simp add: run_summary_def loop_inv_def loop_broke_def loop_failed_def all_reflected_def
        achieved_iterations_def)












lemma wp_conj: "wp m Q1 s \<Longrightarrow> wp m Q2 s \<Longrightarrow> wp m (\<lambda>r s'. Q1 r s' \<and> Q2 r s') s"
  by (auto simp: wp_def split: prod.splits)

lemma loop_event_simps [simp]:
  "loop_event (LLM n d) \<longleftrightarrow> n \<in> {''plan'', ''decide'', ''reflect''}"
  "loop_event (ToolExec m kw)"
  "loop_event (Status t d) \<longleftrightarrow> t \<in> {''goal_start'', ''plan_created'', ''action_decided'', ''action_executed'',
                           ''reflection_completed''}"
  by (simp_all add: loop_event_def)

lemma loop_event_tool_events [simp]: "list_all loop_event (tool_events action self)"
  by (simp add: tool_events_def split: option.splits)

lemma has_reflection_cycle [simp]: "has_reflection (cycle_dict it p a res rf ts)"
  by (simp add: has_reflection_def cycle_dict_def Reflection_dict_def)






lemma is_goal_achieved_last:
  "is_goal_achieved goal (hs @ [cycle_dict it p a res rf ts]) = Inr (PBool (action_successful rf))"
  by (simp add: is_goal_achieved_def dict_get_def cycle_dict_def Reflection_dict_def)

lemma is_goal_achieved_iff:
  "is_goal_achieved goal h = Inr (PBool True)
     \<longleftrightarrow> h \<noteq> [] \<and> item (item (last h) ''reflection'') ''action_successful'' = PBool True"
  by (auto simp: is_goal_achieved_def dict_get_def item_def Let_def type_name_def
        split: pyval.splits option.splits sum.splits)

lemma is_goal_achieved_total:
  "list_all has_reflection h \<Longrightarrow> \<exists>a. is_goal_achieved goal h = Inr a"
proof (cases h rule: rev_cases)
  case Nil
  then show ?thesis by (simp add: is_goal_achieved_def)
next
  case (snoc hs c)
  assume "list_all has_reflection h"
  with snoc have "has_reflection c" by simp
  with snoc show ?thesis
    by (auto simp: is_goal_achieved_def dict_get_def has_reflection_def
          split: pyval.splits option.splits)
qed

lemma loop_post_world [simp]:
  "loop_post goal N n r (s\<lparr>world := w\<rparr>) = loop_post goal N n r s"
  by (cases r) (simp_all add: loop_post_def loop_inv_def loop_broke_def loop_failed_def)








subsection \<open>Evaluating the examples\<close>










subsection \<open>Tool registry\<close>

lemma get_tool_loop_None: "get_tool_loop ts n = None \<longleftrightarrow> (\<forall>t \<in> set ts. name t \<noteq> n)"
  by (induction ts) auto

lemma get_tool_loop_Some:
  "get_tool_loop ts n = Some t \<Longrightarrow>
     \<exists>pre post. ts = pre @ t # post \<and> name t = n \<and> (\<forall>u \<in> set pre. name u \<noteq> n)"
proof (induction ts)
  case Nil
  then show ?case by simp
next
  case (Cons a ts)
  show ?case
  proof (cases "name a = n")
    case True
    with Cons.prems have "a = t" by simp
    with True have "a # ts = [] @ t # ts \<and> name t = n \<and> (\<forall>u \<in> set []. name u \<noteq> n)" by simp
    then show ?thesis by blast
  next
    case False
    with Cons obtain pre post where "ts = pre @ t # post" "name t = n" "\<forall>u \<in> set pre. name u \<noteq> n"
      by auto
    with False have "a # ts = (a # pre) @ t # post \<and> name t = n \<and> (\<forall>u \<in> set (a # pre). name u \<noteq> n)"
      by simp
    then show ?thesis by blast
  qed
qed

text \<open>
  Claim C7. \<^verbatim>\<open>add_tool\<close> puts the tool at the end of the list, whatever its name;
  \<^verbatim>\<open>get_tool\<close> is absent exactly when no tool has the name, and otherwise is the first
  tool of the list with that name; \<^verbatim>\<open>remove_tool\<close> leaves no tool with the name and
  keeps every other tool, in order.
\<close>

theorem tool_registry:
  "tools (add_tool t self) = tools self @ [t]
   \<and> (get_tool self n = None \<longleftrightarrow> (\<forall>u \<in> set (tools self). name u \<noteq> n))
   \<and> (\<forall>found. get_tool self n = Some found \<longrightarrow>
        (\<exists>pre post. tools self = pre @ found # post \<and> name found = n \<and> (\<forall>u \<in> set pre. name u \<noteq> n)))
   \<and> (\<forall>u \<in> set (tools (remove_tool n self)). name u \<noteq> n)
   \<and> subseq (tools (remove_tool n self)) (tools self)
   \<and> (\<forall>u \<in> set (tools self). name u \<noteq> n \<longrightarrow> u \<in> set (tools (remove_tool n self)))"
proof (intro conjI allI impI)
  show "tools (add_tool t self) = tools self @ [t]"
    by (simp add: add_tool_def)
  show "get_tool self n = None \<longleftrightarrow> (\<forall>u \<in> set (tools self). name u \<noteq> n)"
    by (simp add: get_tool_def get_tool_loop_None)
  show "\<exists>pre post. tools self = pre @ found # post \<and> name found = n \<and> (\<forall>u \<in> set pre. name u \<noteq> n)"
    if "get_tool self n = Some found" for found
    using that unfolding get_tool_def by (rule get_tool_loop_Some)
  show "\<forall>u \<in> set (tools (remove_tool n self)). name u \<noteq> n"
    by (simp add: remove_tool_def)
  show "subseq (tools (remove_tool n self)) (tools self)"
    by (simp add: remove_tool_def)
  show "\<forall>u \<in> set (tools self). name u \<noteq> n \<longrightarrow> u \<in> set (tools (remove_tool n self))"
    by (simp add: remove_tool_def)
qed

theorem tool_registry_witness:
  "tools (add_tool (demo_tool ''add'' ''second'' (Inr PNone)) (demo_agent [demo_tool ''add'' ''first'' (Inr PNone), demo_tool ''subtract'' ''s'' (Inr PNone)]))
     = [demo_tool ''add'' ''first'' (Inr PNone), demo_tool ''subtract'' ''s'' (Inr PNone), demo_tool ''add'' ''second'' (Inr PNone)]
   \<and> get_tool (demo_agent [demo_tool ''subtract'' ''s'' (Inr PNone), demo_tool ''add'' ''first'' (Inr PNone), demo_tool ''add'' ''second'' (Inr PNone)]) ''add''
       = Some (demo_tool ''add'' ''first'' (Inr PNone))
   \<and> get_tool (demo_agent [demo_tool ''subtract'' ''s'' (Inr PNone)]) ''multiply'' = None
   \<and> tools (remove_tool ''add'' (demo_agent [demo_tool ''add'' ''first'' (Inr PNone), demo_tool ''subtract'' ''s'' (Inr PNone), demo_tool ''add'' ''second'' (Inr PNone)]))
       = [demo_tool ''subtract'' ''s'' (Inr PNone)]"
  using tool_registry [of "demo_tool ''add'' ''second'' (Inr PNone)"
      "demo_agent [demo_tool ''add'' ''first'' (Inr PNone), demo_tool ''subtract'' ''s'' (Inr PNone)]" "''add''"]
    tool_registry [of "demo_tool ''add'' ''second'' (Inr PNone)"
      "demo_agent [demo_tool ''subtract'' ''s'' (Inr PNone)]" "''multiply''"]
  by (simp add: demo_agent_def demo_tool_def add_tool_def get_tool_def remove_tool_def)

subsection \<open>The loop\<close>











end
